theory Spec2Isabelle
  imports Complex_Main
begin

section \<open>Data model\<close>

text \<open>
  A shallow embedding of the \<open>closedby\<close> polyfill (the bundle \<open>src/index.js\<close>:
  \<open>listeners.ts\<close>, \<open>observer.ts\<close>, \<open>index.ts\<close>). DOM nodes are identified by
  natural numbers (reference identity); the mutable page is one record that every
  operation takes and returns.
\<close>

type_synonym dialog = nat

text \<open>The result of \<open>getBoundingClientRect()\<close>.\<close>

record DOMRect =
  rect_top :: real
  rect_bottom :: real
  rect_left :: real
  rect_right :: real

text \<open>
  What the code reads and writes on one \<open>dialog\<close> element: the \<open>closedby\<close> content
  attribute (\<open>None\<close> when absent), the \<open>open\<close> flag, the border box at the moment
  it is asked for, and the listeners registered for \<open>click\<close> and \<open>cancel\<close>
  (closures, identified by the reference they were allocated at).
\<close>

record element =
  closedby_attr :: "string option"
  is_open :: bool
  bounding_rect :: DOMRect
  click_listeners :: "nat list"
  cancel_listeners :: "nat list"

text \<open>
  \<open>DialogListeners\<close> of \<open>types.ts\<close>. The field \<open>handleEscape\<close> always holds the one
  shared \<open>documentEscapeHandler\<close> and carries no information.
\<close>

record DialogListeners =
  handleClick_ref :: nat
  handleCancel_ref :: nat
  attrObserver_ref :: nat

datatype js_error = ReferenceError | InvalidStateError | TypeError

text \<open>
  A value written to the \<open>closedBy\<close> property. \<open>JSOther\<close> is any value that is not a
  string, \<open>undefined\<close>, \<open>null\<close> or a Symbol (a number, a boolean, an object), with the
  outcome of converting it to a string: the text, or the error the conversion throws.
\<close>

datatype js_value = JSString string | JSUndefined | JSNull | JSSymbol | JSOther "js_error + string"

text \<open>The two warnings of \<open>index.ts\<close>; the second carries the interpolated value.\<close>

datatype diagnostic = DialogApiNotFound | InvalidValue string

text \<open>
  The page: the elements, the module state of \<open>listeners.ts\<close> (\<open>dialogStates\<close>, a
  WeakMap; \<open>activeDialogs\<close>, a Set, which iterates in insertion order and is kept
  here as the list of its members in that order), the running attribute
  observations, the allocator of fresh closures and observers, the dialogs an initial
  scan of the document finds, and the state of \<open>index.ts\<close>: the global
  \<open>HTMLDialogElement\<close> (\<open>None\<close> when the host does not define it, otherwise the
  property names of its prototype), whether the prototype methods are the patched ones,
  the flag \<open>polyfilled\<close> and the console.
\<close>

record page =
  elements :: "dialog \<Rightarrow> element"
  dialogStates :: "dialog \<rightharpoonup> DialogListeners"
  activeDialogs :: "dialog list"
  observing :: "(nat \<times> dialog) list"
  next_ref :: nat
  tree_dialogs :: "dialog list"
  HTMLDialogElement :: "string set option"
  methods_patched :: bool
  polyfilled :: bool
  console :: "diagnostic list"

record keyboard_event =
  key :: string
  key_defaultPrevented :: bool

record mouse_event =
  target :: nat
  clientX :: real
  clientY :: real

record cancel_event =
  cancel_defaultPrevented :: bool

section \<open>listeners.ts\<close>

text \<open>\<open>Set.prototype.add\<close> and \<open>Set.prototype.delete\<close> on the insertion-ordered list.\<close>

definition set_add :: "'a \<Rightarrow> 'a list \<Rightarrow> 'a list" where
  "set_add x xs = (if x \<in> set xs then xs else xs @ [x])"

definition set_delete :: "'a \<Rightarrow> 'a list \<Rightarrow> 'a list" where
  "set_delete x xs = removeAll x xs"

definition getClosedByValue :: "page \<Rightarrow> dialog \<Rightarrow> string" where
  "getClosedByValue s d =
     (case closedby_attr (elements s d) of
        None \<Rightarrow> ''any''
      | Some raw \<Rightarrow> if raw = ''closerequest'' \<or> raw = ''none'' then raw else ''any'')"

definition attachDialog :: "dialog \<Rightarrow> page \<Rightarrow> page" where
  "attachDialog d s =
     (if dialogStates s d \<noteq> None then s
      else
        let state = \<lparr>handleClick_ref = next_ref s,
                     handleCancel_ref = next_ref s + 1,
                     attrObserver_ref = next_ref s + 2\<rparr>;
            el = elements s d;
            el' = el\<lparr>click_listeners := click_listeners el @ [handleClick_ref state],
                     cancel_listeners := cancel_listeners el @ [handleCancel_ref state]\<rparr>
        in s\<lparr>elements := (elements s)(d := el'),
              observing := observing s @ [(attrObserver_ref state, d)],
              activeDialogs := set_add d (activeDialogs s),
              dialogStates := (dialogStates s)(d \<mapsto> state),
              next_ref := next_ref s + 3\<rparr>)"

definition detachDialog :: "dialog \<Rightarrow> page \<Rightarrow> page" where
  "detachDialog d s =
     (case dialogStates s d of
        None \<Rightarrow> s
      | Some state \<Rightarrow>
          let el = elements s d;
              el' = el\<lparr>click_listeners := removeAll (handleClick_ref state) (click_listeners el),
                       cancel_listeners := removeAll (handleCancel_ref state) (cancel_listeners el)\<rparr>
          in s\<lparr>elements := (elements s)(d := el'),
                observing := filter (\<lambda>p. fst p \<noteq> attrObserver_ref state) (observing s),
                activeDialogs := set_delete d (activeDialogs s),
                dialogStates := (dialogStates s)(d := None)\<rparr>)"

text \<open>
  The host's native \<open>close()\<close>: the dialog is no longer open afterwards. The patched
  method of \<open>index.ts\<close> detaches first; \<open>dialog.close()\<close> in a handler is whichever
  of the two the prototype holds.
\<close>

definition originalClose :: "dialog \<Rightarrow> page \<Rightarrow> page" where
  "originalClose d s = s\<lparr>elements := (elements s)(d := (elements s d)\<lparr>is_open := False\<rparr>)\<rparr>"

definition closePatched :: "dialog \<Rightarrow> page \<Rightarrow> page" where
  "closePatched d s = originalClose d (detachDialog d s)"

definition dialog_close :: "dialog \<Rightarrow> page \<Rightarrow> page" where
  "dialog_close d s = (if methods_patched s then closePatched d s else originalClose d s)"

text \<open>
  The loop of \<open>documentEscapeHandler\<close> over \<open>Array.from(activeDialogs).reverse()\<close>;
  the result is \<open>(shouldPreventDefault, hasClosableDialog, page)\<close>.
\<close>

fun escape_walk :: "dialog list \<Rightarrow> page \<Rightarrow> bool \<times> bool \<times> page" where
  "escape_walk [] s = (False, False, s)"
| "escape_walk (d # ds) s =
     (let closedBy = getClosedByValue s d in
      if closedBy = ''none'' then (True, False, s)
      else if closedBy = ''any'' \<or> closedBy = ''closerequest'' then (False, True, dialog_close d s)
      else escape_walk ds s)"

definition documentEscapeHandler :: "keyboard_event \<Rightarrow> page \<Rightarrow> keyboard_event \<times> page" where
  "documentEscapeHandler ev s =
     (if key ev \<noteq> ''Escape'' \<or> length (activeDialogs s) = 0 then (ev, s)
      else
        case escape_walk (rev (activeDialogs s)) s of
          (shouldPreventDefault, hasClosableDialog, s') \<Rightarrow>
            (if shouldPreventDefault \<or> hasClosableDialog
             then ev\<lparr>key_defaultPrevented := True\<rparr> else ev, s'))"

text \<open>The closures made by \<open>createClickHandler(dialog)\<close> and \<open>createCancelHandler(dialog)\<close>.\<close>

definition handleClick :: "dialog \<Rightarrow> mouse_event \<Rightarrow> page \<Rightarrow> page" where
  "handleClick d ev s =
     (if target ev \<noteq> d then s
      else if getClosedByValue s d \<noteq> ''any'' then s
      else
        let rect = bounding_rect (elements s d);
            inside = (rect_top rect < clientY ev \<and> clientY ev < rect_bottom rect \<and>
                      rect_left rect < clientX ev \<and> clientX ev < rect_right rect)
        in if \<not> inside then dialog_close d s else s)"

definition handleCancel :: "dialog \<Rightarrow> cancel_event \<Rightarrow> page \<Rightarrow> cancel_event" where
  "handleCancel d ev s =
     (if getClosedByValue s d = ''none'' then ev\<lparr>cancel_defaultPrevented := True\<rparr> else ev)"

section \<open>observer.ts\<close>

text \<open>
  \<open>observeRoot\<close> scans a root for \<open>dialog[closedby]\<close> and attaches those that are
  open; \<open>tree_dialogs\<close> lists the dialogs the scans of the document and of its shadow
  roots meet. The callback of the root observer does the same for the dialogs of every
  added subtree and detaches every dialog of a removed subtree.
\<close>

definition attach_if_open :: "dialog \<Rightarrow> page \<Rightarrow> page" where
  "attach_if_open d s = (if is_open (elements s d) then attachDialog d s else s)"

definition observeRoot :: "dialog list \<Rightarrow> page \<Rightarrow> page" where
  "observeRoot ds s =
     fold attach_if_open (filter (\<lambda>d. closedby_attr (elements s d) \<noteq> None) ds) s"

definition nodes_removed :: "dialog list \<Rightarrow> page \<Rightarrow> page" where
  "nodes_removed ds s = fold detachDialog ds s"

definition setupObservers :: "page \<Rightarrow> page" where
  "setupObservers s = observeRoot (tree_dialogs s) s"

section \<open>index.ts\<close>

text \<open>
  \<open>typeof HTMLDialogElement.prototype === "object"\<close> holds for every host that
  defines the constructor, so \<open>isSupported\<close> is decided by the first and the last
  conjunct.
\<close>

definition isSupported :: "page \<Rightarrow> bool" where
  "isSupported s =
     (case HTMLDialogElement s of None \<Rightarrow> False | Some proto \<Rightarrow> ''closedBy'' \<in> proto)"

definition isPolyfilled :: "page \<Rightarrow> bool" where
  "isPolyfilled s = polyfilled s"

text \<open>
  The host's native \<open>showModal\<close> is a parameter: it acts on the elements and either
  throws or returns. The patched method runs it first.
\<close>

type_synonym native_open = "dialog \<Rightarrow> (dialog \<Rightarrow> element) \<Rightarrow> js_error + (dialog \<Rightarrow> element)"

definition showModalPatched :: "native_open \<Rightarrow> dialog \<Rightarrow> page \<Rightarrow> js_error + page" where
  "showModalPatched originalShowModal d s =
     (case originalShowModal d (elements s) of
        Inl e \<Rightarrow> Inl e
      | Inr els \<Rightarrow>
          let s1 = s\<lparr>elements := els\<rparr> in
          if \<not> is_open (elements s1 d) then Inr s1
          else if closedby_attr (elements s1 d) \<noteq> None then Inr (attachDialog d s1)
          else Inr s1)"

definition setAttribute :: "dialog \<Rightarrow> string \<Rightarrow> page \<Rightarrow> page" where
  "setAttribute d v s = s\<lparr>elements := (elements s)(d := (elements s d)\<lparr>closedby_attr := Some v\<rparr>)\<rparr>"

definition removeAttribute :: "dialog \<Rightarrow> page \<Rightarrow> page" where
  "removeAttribute d s = s\<lparr>elements := (elements s)(d := (elements s d)\<lparr>closedby_attr := None\<rparr>)\<rparr>"

definition console_warn :: "diagnostic \<Rightarrow> page \<Rightarrow> page" where
  "console_warn m s = s\<lparr>console := console s @ [m]\<rparr>"

definition closedBy_get :: "page \<Rightarrow> dialog \<Rightarrow> string" where
  "closedBy_get s d =
     (let v = closedby_attr (elements s d) in
      if v = Some ''closerequest'' then ''closerequest''
      else if v = Some ''none'' then ''none'' else ''any'')"

text \<open>
  The conversion \<open>${value}\<close> of the template literal in the setter's warning: a Symbol
  throws a TypeError, an object may throw from its own conversion.
\<close>

fun to_string :: "js_value \<Rightarrow> js_error + string" where
  "to_string (JSString v) = Inr v"
| "to_string JSUndefined = Inr ''undefined''"
| "to_string JSNull = Inr ''null''"
| "to_string JSSymbol = Inl TypeError"
| "to_string (JSOther r) = r"

text \<open>
  The setter of \<open>closedBy\<close>. In the fallback branch the warning text is built before
  \<open>setAttribute\<close> runs, so a throwing conversion leaves the setter before anything is
  written.
\<close>

definition closedBy_set :: "dialog \<Rightarrow> js_value \<Rightarrow> page \<Rightarrow> js_error + page" where
  "closedBy_set d val s =
     (case (if val = JSString ''any'' \<or> val = JSString ''closerequest'' \<or> val = JSString ''none''
            then (case val of JSString v \<Rightarrow> Inr (setAttribute d v s) | _ \<Rightarrow> Inr s)
            else (case to_string val of
                    Inl e \<Rightarrow> Inl e
                  | Inr txt \<Rightarrow> Inr (setAttribute d ''any'' (console_warn (InvalidValue txt) s)))) of
        Inl e \<Rightarrow> Inl e
      | Inr s1 \<Rightarrow>
          Inr (if is_open (elements s1 d)
               then (if closedby_attr (elements s1 d) \<noteq> None then attachDialog d s1
                     else detachDialog d s1)
               else s1))"

text \<open>
  \<open>apply\<close> (named \<open>apply_polyfill\<close> here, \<open>apply\<close> being a proof command). Reading
  \<open>HTMLDialogElement.prototype\<close> on a host that does not define the global throws a
  ReferenceError. The three assignments leave \<open>showModal\<close>,
  \<open>close\<close> and \<open>closedBy\<close> on the prototype.
\<close>

definition apply_polyfill :: "page \<Rightarrow> js_error + page" where
  "apply_polyfill s =
     (if polyfilled s \<or> isSupported s then Inr s
      else
        case HTMLDialogElement s of
          None \<Rightarrow> Inl ReferenceError
        | Some proto \<Rightarrow>
            if ''showModal'' \<notin> proto
            then Inr (console_warn DialogApiNotFound s)
            else Inr ((setupObservers
                         (s\<lparr>HTMLDialogElement :=
                               Some (insert ''showModal'' (insert ''close'' (insert ''closedBy'' proto))),
                            methods_patched := True\<rparr>))\<lparr>polyfilled := True\<rparr>))"

text \<open>The last statement of the module: \<open>if (!isSupported()) apply()\<close>.\<close>

definition module_load :: "page \<Rightarrow> js_error + page" where
  "module_load s = (if \<not> isSupported s then apply_polyfill s else Inr s)"

section \<open>Sequences of operations\<close>

datatype action =
    Attach dialog
  | Detach dialog
  | ShowModal dialog
  | Close dialog
  | SetClosedBy dialog js_value
  | SetAttr dialog string
  | RemoveAttr dialog
  | Keydown string
  | Click dialog mouse_event
  | NodesAdded "dialog list"
  | NodesRemoved "dialog list"
  | Apply

text \<open>A call that throws leaves the page as it was.\<close>

definition or_unchanged :: "page \<Rightarrow> js_error + page \<Rightarrow> page" where
  "or_unchanged s r = (case r of Inl e \<Rightarrow> s | Inr s' \<Rightarrow> s')"

fun perform :: "native_open \<Rightarrow> action \<Rightarrow> page \<Rightarrow> page" where
  "perform nat_open (Attach d) s = attachDialog d s"
| "perform nat_open (Detach d) s = detachDialog d s"
| "perform nat_open (ShowModal d) s =
     (if methods_patched s then or_unchanged s (showModalPatched nat_open d s)
      else case nat_open d (elements s) of Inl e \<Rightarrow> s | Inr els \<Rightarrow> s\<lparr>elements := els\<rparr>)"
| "perform nat_open (Close d) s = dialog_close d s"
| "perform nat_open (SetClosedBy d v) s =
     (if methods_patched s then or_unchanged s (closedBy_set d v s) else s)"
| "perform nat_open (SetAttr d v) s = setAttribute d v s"
| "perform nat_open (RemoveAttr d) s = removeAttribute d s"
| "perform nat_open (Keydown k) s =
     snd (documentEscapeHandler \<lparr>key = k, key_defaultPrevented = False\<rparr> s)"
| "perform nat_open (Click d ev) s = handleClick d ev s"
| "perform nat_open (NodesAdded ds) s = observeRoot ds s"
| "perform nat_open (NodesRemoved ds) s = nodes_removed ds s"
| "perform nat_open Apply s = or_unchanged s (apply_polyfill s)"

definition run :: "native_open \<Rightarrow> action list \<Rightarrow> page \<Rightarrow> page" where
  "run nat_open acts s = fold (perform nat_open) acts s"

text \<open>
  The tracking invariant: the Escape stack has no duplicate, and its members are the
  dialogs that own a listener record.
\<close>

definition tracking_inv :: "page \<Rightarrow> bool" where
  "tracking_inv s \<longleftrightarrow> distinct (activeDialogs s) \<and> set (activeDialogs s) = dom (dialogStates s)"

section \<open>Concrete pages\<close>

definition blank_element :: element where
  "blank_element = \<lparr>closedby_attr = None, is_open = False,
     bounding_rect = \<lparr>rect_top = 0, rect_bottom = 100, rect_left = 0, rect_right = 100\<rparr>,
     click_listeners = [], cancel_listeners = []\<rparr>"

text \<open>A host with the dialog element and without \<open>closedBy\<close>, before the module runs.\<close>

definition blank_page :: page where
  "blank_page = \<lparr>elements = (\<lambda>d. blank_element), dialogStates = Map.empty, activeDialogs = [],
     observing = [], next_ref = 0, tree_dialogs = [],
     HTMLDialogElement = Some {''showModal'', ''close''},
     methods_patched = False, polyfilled = False, console = []\<rparr>"

text \<open>A host that does not define \<open>HTMLDialogElement\<close> at all.\<close>

definition legacy_page :: page where
  "legacy_page = blank_page\<lparr>HTMLDialogElement := None\<rparr>"

text \<open>A native \<open>showModal\<close> that always succeeds.\<close>

definition open_ok :: native_open where
  "open_ok d els = Inr (els(d := (els d)\<lparr>is_open := True\<rparr>))"

text \<open>
  A native \<open>showModal\<close> that throws, and one that returns without opening the dialog.
\<close>

definition open_throws :: native_open where
  "open_throws d els = Inl InvalidStateError"

definition open_silent :: native_open where
  "open_silent d els = Inr els"

text \<open>
  The polyfill applied on the blank host, then dialogs 10, 20, 30 configured and opened in
  that order; and two dialogs of which the later one is configured \<open>"none"\<close>.
\<close>

definition three_open :: page where
  "three_open =
     run open_ok [Apply, SetAttr 10 ''any'', SetAttr 20 ''any'', SetAttr 30 ''any'',
                  ShowModal 10, ShowModal 20, ShowModal 30] blank_page"

definition blocked_page :: page where
  "blocked_page =
     run open_ok [Apply, SetAttr 10 ''any'', SetAttr 20 ''none'', ShowModal 10, ShowModal 20] blank_page"

text \<open>The polyfill applied and three dialogs configured, none of them opened yet.\<close>

definition ready_page :: page where
  "ready_page =
     run open_ok [Apply, SetAttr 10 ''any'', SetAttr 20 ''any'', SetAttr 30 ''any''] blank_page"


definition escape_key :: keyboard_event where
  "escape_key = \<lparr>key = ''Escape'', key_defaultPrevented = False\<rparr>"

text \<open>
  Clicks on dialog 30 of \<open>three_open\<close>, whose border box is the square from (0, 0) to
  (100, 100): on its top edge, inside it, outside it, and on a descendant (node 31)
  with coordinates outside it.
\<close>

definition edge_click :: mouse_event where
  "edge_click = \<lparr>target = 30, clientX = 50, clientY = 0\<rparr>"

definition inner_click :: mouse_event where
  "inner_click = \<lparr>target = 30, clientX = 50, clientY = 50\<rparr>"

definition outer_click :: mouse_event where
  "outer_click = \<lparr>target = 30, clientX = 150, clientY = 50\<rparr>"

definition descendant_click :: mouse_event where
  "descendant_click = \<lparr>target = 31, clientX = 150, clientY = 50\<rparr>"

text \<open>
  Two hit tests for comparison with \<open>handleClick\<close>: \<open>clickedInside\<close> of the other
  build in \<open>src/index.js\<close> (its \<open>createClickHandler\<close> closes when this is false), and
  the specification's wording, the pointer lies strictly outside the box.
\<close>

definition clickedInside :: "DOMRect \<Rightarrow> mouse_event \<Rightarrow> bool" where
  "clickedInside rect ev \<longleftrightarrow>
     rect_top rect \<le> clientY ev \<and> clientY ev \<le> rect_bottom rect \<and>
     rect_left rect \<le> clientX ev \<and> clientX ev \<le> rect_right rect"

definition spec_strictly_outside :: "DOMRect \<Rightarrow> real \<Rightarrow> real \<Rightarrow> bool" where
  "spec_strictly_outside rect x y \<longleftrightarrow>
     y < rect_top rect \<or> rect_bottom rect < y \<or> x < rect_left rect \<or> rect_right rect < x"

section \<open>Basic facts\<close>

lemma getClosedByValue_range:
  "getClosedByValue s d \<in> {''any'', ''closerequest'', ''none''}"
  by (simp add: getClosedByValue_def split: option.split)

lemma set_add_set [simp]: "set (set_add x xs) = insert x (set xs)"
  by (auto simp: set_add_def)

lemma set_add_distinct [simp]: "distinct xs \<Longrightarrow> distinct (set_add x xs)"
  by (simp add: set_add_def)

lemma set_add_fresh: "x \<notin> set xs \<Longrightarrow> set_add x xs = xs @ [x]"
  by (simp add: set_add_def)

lemma set_delete_set [simp]: "set (set_delete x xs) = set xs - {x}"
  by (simp add: set_delete_def)

lemma set_delete_distinct [simp]: "distinct xs \<Longrightarrow> distinct (set_delete x xs)"
  by (simp add: set_delete_def distinct_removeAll)

lemma set_delete_last: "x \<notin> set xs \<Longrightarrow> set_delete x (xs @ [x]) = xs"
  by (simp add: set_delete_def)

text \<open>What attaching and detaching leave alone.\<close>

lemma attachDialog_attr [simp]:
  "closedby_attr (elements (attachDialog d s) d') = closedby_attr (elements s d')"
  by (simp add: attachDialog_def Let_def)

lemma attachDialog_open [simp]:
  "is_open (elements (attachDialog d s) d') = is_open (elements s d')"
  by (simp add: attachDialog_def Let_def)

lemma attachDialog_rect [simp]:
  "bounding_rect (elements (attachDialog d s) d') = bounding_rect (elements s d')"
  by (simp add: attachDialog_def Let_def)

lemma attachDialog_other [simp]:
  "d' \<noteq> d \<Longrightarrow> elements (attachDialog d s) d' = elements s d'"
  by (simp add: attachDialog_def Let_def)

lemma attachDialog_index [simp]:
  "methods_patched (attachDialog d s) = methods_patched s"
  "polyfilled (attachDialog d s) = polyfilled s"
  "console (attachDialog d s) = console s"
  "HTMLDialogElement (attachDialog d s) = HTMLDialogElement s"
  "tree_dialogs (attachDialog d s) = tree_dialogs s"
  by (simp_all add: attachDialog_def Let_def)

lemma detachDialog_attr [simp]:
  "closedby_attr (elements (detachDialog d s) d') = closedby_attr (elements s d')"
  by (simp add: detachDialog_def Let_def split: option.split)

lemma detachDialog_open [simp]:
  "is_open (elements (detachDialog d s) d') = is_open (elements s d')"
  by (simp add: detachDialog_def Let_def split: option.split)

lemma detachDialog_rect [simp]:
  "bounding_rect (elements (detachDialog d s) d') = bounding_rect (elements s d')"
  by (simp add: detachDialog_def Let_def split: option.split)

lemma detachDialog_other [simp]:
  "d' \<noteq> d \<Longrightarrow> elements (detachDialog d s) d' = elements s d'"
  by (simp add: detachDialog_def Let_def split: option.split)

lemma detachDialog_index [simp]:
  "methods_patched (detachDialog d s) = methods_patched s"
  "polyfilled (detachDialog d s) = polyfilled s"
  "console (detachDialog d s) = console s"
  "HTMLDialogElement (detachDialog d s) = HTMLDialogElement s"
  "tree_dialogs (detachDialog d s) = tree_dialogs s"
  by (simp_all add: detachDialog_def Let_def split: option.split)

lemma getClosedByValue_attach [simp]:
  "getClosedByValue (attachDialog d s) d' = getClosedByValue s d'"
  by (simp add: getClosedByValue_def)

lemma getClosedByValue_detach [simp]:
  "getClosedByValue (detachDialog d s) d' = getClosedByValue s d'"
  by (simp add: getClosedByValue_def)

text \<open>The record map and the stack after attaching and detaching.\<close>

lemma attachDialog_tracked [simp]: "dialogStates (attachDialog d s) d \<noteq> None"
  by (simp add: attachDialog_def Let_def)

lemma attachDialog_dom [simp]:
  "dom (dialogStates (attachDialog d s)) = insert d (dom (dialogStates s))"
  by (auto simp: attachDialog_def Let_def)

lemma attachDialog_noop: "dialogStates s d \<noteq> None \<Longrightarrow> attachDialog d s = s"
  by (simp add: attachDialog_def)

lemma attachDialog_stack_fresh:
  "dialogStates s d = None \<Longrightarrow> activeDialogs (attachDialog d s) = set_add d (activeDialogs s)"
  by (simp add: attachDialog_def Let_def)

lemma detachDialog_untracked [simp]: "dialogStates (detachDialog d s) d = None"
  by (simp add: detachDialog_def Let_def split: option.split)

lemma detachDialog_dom [simp]:
  "dom (dialogStates (detachDialog d s)) = dom (dialogStates s) - {d}"
  by (auto simp: detachDialog_def Let_def split: option.splits if_splits)

lemma detachDialog_noop: "dialogStates s d = None \<Longrightarrow> detachDialog d s = s"
  by (simp add: detachDialog_def)

lemma detachDialog_stack:
  "dialogStates s d \<noteq> None \<Longrightarrow> activeDialogs (detachDialog d s) = set_delete d (activeDialogs s)"
  by (auto simp: detachDialog_def Let_def)

lemma tracking_inv_attach: "tracking_inv s \<Longrightarrow> tracking_inv (attachDialog d s)"
  by (cases "dialogStates s d = None")
     (auto simp: tracking_inv_def attachDialog_stack_fresh attachDialog_noop)

lemma tracking_inv_detach: "tracking_inv s \<Longrightarrow> tracking_inv (detachDialog d s)"
  by (cases "dialogStates s d = None")
     (auto simp: tracking_inv_def detachDialog_stack detachDialog_noop)

lemma distinct_count_list: "distinct xs \<Longrightarrow> x \<in> set xs \<Longrightarrow> count_list xs x = 1"
  by (induction xs) auto

lemma attachDialog_twice: "attachDialog d (attachDialog d s) = attachDialog d s"
  by (rule attachDialog_noop) simp

lemma attachDialog_funpow: "0 < n \<Longrightarrow> (attachDialog d ^^ n) s = attachDialog d s"
proof (induction n)
  case 0
  then show ?case by simp
next
  case (Suc n)
  show ?case
  proof (cases "n = 0")
    case True
    then show ?thesis by simp
  next
    case False
    with Suc.IH have "(attachDialog d ^^ n) s = attachDialog d s" by simp
    then show ?thesis by (simp add: attachDialog_twice)
  qed
qed

lemma blank_page_inv: "tracking_inv blank_page"
  by (simp add: tracking_inv_def blank_page_def)

section \<open>The tracking invariant under every operation\<close>

lemma tracking_inv_cong:
  "activeDialogs s' = activeDialogs s \<Longrightarrow> dialogStates s' = dialogStates s \<Longrightarrow>
   tracking_inv s' = tracking_inv s"
  by (simp add: tracking_inv_def)

lemma tracking_inv_originalClose: "tracking_inv (originalClose d s) = tracking_inv s"
  by (rule tracking_inv_cong) (simp_all add: originalClose_def)

lemma tracking_inv_dialog_close: "tracking_inv s \<Longrightarrow> tracking_inv (dialog_close d s)"
  by (simp add: dialog_close_def closePatched_def tracking_inv_originalClose tracking_inv_detach)

lemma tracking_inv_escape_walk:
  "tracking_inv s \<Longrightarrow> tracking_inv (snd (snd (escape_walk ds s)))"
  by (induction ds) (simp_all add: Let_def tracking_inv_dialog_close)

lemma tracking_inv_escape:
  "tracking_inv s \<Longrightarrow> tracking_inv (snd (documentEscapeHandler ev s))"
  using tracking_inv_escape_walk [of s "rev (activeDialogs s)"]
  by (auto simp: documentEscapeHandler_def split: prod.split)

lemma tracking_inv_handleClick: "tracking_inv s \<Longrightarrow> tracking_inv (handleClick d ev s)"
  by (simp add: handleClick_def Let_def tracking_inv_dialog_close)

lemma tracking_inv_setAttribute: "tracking_inv (setAttribute d v s) = tracking_inv s"
  by (rule tracking_inv_cong) (simp_all add: setAttribute_def)

lemma tracking_inv_removeAttribute: "tracking_inv (removeAttribute d s) = tracking_inv s"
  by (rule tracking_inv_cong) (simp_all add: removeAttribute_def)

lemma tracking_inv_console_warn: "tracking_inv (console_warn m s) = tracking_inv s"
  by (rule tracking_inv_cong) (simp_all add: console_warn_def)

lemma closedBy_set_recognised:
  "v \<in> {''any'', ''closerequest'', ''none''} \<Longrightarrow>
   closedBy_set d (JSString v) s =
     Inr (if is_open (elements s d) then attachDialog d (setAttribute d v s)
          else setAttribute d v s)"
  by (auto simp: closedBy_set_def setAttribute_def console_warn_def)

lemma closedBy_set_fallback:
  "val \<notin> {JSString ''any'', JSString ''closerequest'', JSString ''none''} \<Longrightarrow>
   to_string val = Inr txt \<Longrightarrow>
   closedBy_set d val s =
     Inr (if is_open (elements s d)
          then attachDialog d (setAttribute d ''any'' (console_warn (InvalidValue txt) s))
          else setAttribute d ''any'' (console_warn (InvalidValue txt) s))"
  by (auto simp: closedBy_set_def setAttribute_def console_warn_def)

lemma closedBy_set_throws:
  "val \<notin> {JSString ''any'', JSString ''closerequest'', JSString ''none''} \<Longrightarrow>
   to_string val = Inl e \<Longrightarrow> closedBy_set d val s = Inl e"
  by (auto simp: closedBy_set_def setAttribute_def console_warn_def)

lemma tracking_inv_closedBy_set:
  "tracking_inv s \<Longrightarrow> tracking_inv (or_unchanged s (closedBy_set d v s))"
proof (cases "v \<in> {JSString ''any'', JSString ''closerequest'', JSString ''none''}")
  case True
  assume inv: "tracking_inv s"
  from True obtain w where w: "v = JSString w" "w \<in> {''any'', ''closerequest'', ''none''}"
    by auto
  from inv show ?thesis
    by (simp add: w(1) closedBy_set_recognised [OF w(2)] or_unchanged_def tracking_inv_attach
        tracking_inv_setAttribute)
next
  case False
  assume inv: "tracking_inv s"
  show ?thesis
  proof (cases "to_string v")
    case (Inl e)
    with False inv show ?thesis by (simp add: closedBy_set_throws or_unchanged_def)
  next
    case (Inr msg)
    from inv show ?thesis
      by (simp add: closedBy_set_fallback [OF False Inr] or_unchanged_def tracking_inv_attach
          tracking_inv_setAttribute tracking_inv_console_warn)
  qed
qed

lemma tracking_inv_showModalPatched:
  "tracking_inv s \<Longrightarrow> tracking_inv (or_unchanged s (showModalPatched nat_open d s))"
proof -
  assume inv: "tracking_inv s"
  have upd: "tracking_inv (s\<lparr>elements := els\<rparr>)" for els
    using inv by (simp add: tracking_inv_def)
  show ?thesis
    using inv upd
    by (simp add: showModalPatched_def or_unchanged_def Let_def tracking_inv_attach
        split: sum.split)
qed

lemma tracking_inv_fold_attach:
  "tracking_inv s \<Longrightarrow> tracking_inv (fold attach_if_open ds s)"
  by (induction ds arbitrary: s) (simp_all add: attach_if_open_def tracking_inv_attach)

lemma tracking_inv_observeRoot: "tracking_inv s \<Longrightarrow> tracking_inv (observeRoot ds s)"
  by (simp add: observeRoot_def tracking_inv_fold_attach)

lemma tracking_inv_nodes_removed: "tracking_inv s \<Longrightarrow> tracking_inv (nodes_removed ds s)"
  unfolding nodes_removed_def
  by (induction ds arbitrary: s) (simp_all add: tracking_inv_detach)

lemma tracking_inv_apply:
  "tracking_inv s \<Longrightarrow> tracking_inv (or_unchanged s (apply_polyfill s))"
proof -
  assume inv: "tracking_inv s"
  have patched: "tracking_inv (s\<lparr>HTMLDialogElement := h, methods_patched := b\<rparr>)" for h b
    using inv by (simp add: tracking_inv_def)
  have flag: "tracking_inv (s'\<lparr>polyfilled := True\<rparr>) = tracking_inv s'" for s'
    by (simp add: tracking_inv_def)
  show ?thesis
    using inv
    by (simp add: apply_polyfill_def or_unchanged_def setupObservers_def flag
        tracking_inv_observeRoot [OF patched] tracking_inv_console_warn split: option.split)
qed

lemma tracking_inv_perform: "tracking_inv s \<Longrightarrow> tracking_inv (perform nat_open a s)"
proof (cases a)
  case (ShowModal d)
  assume inv: "tracking_inv s"
  have "tracking_inv (s\<lparr>elements := els\<rparr>)" for els
    using inv by (simp add: tracking_inv_def)
  with inv ShowModal show ?thesis
    by (simp add: tracking_inv_showModalPatched split: sum.split)
qed (simp_all add: tracking_inv_attach tracking_inv_detach tracking_inv_dialog_close
      tracking_inv_closedBy_set tracking_inv_setAttribute tracking_inv_removeAttribute
      tracking_inv_escape tracking_inv_handleClick tracking_inv_observeRoot
      tracking_inv_nodes_removed tracking_inv_apply)

lemma tracking_inv_run: "tracking_inv s \<Longrightarrow> tracking_inv (run nat_open acts s)"
  unfolding run_def
  by (induction acts arbitrary: s) (simp_all add: tracking_inv_perform)

section \<open>Closing a dialog and the Escape walk\<close>

lemma originalClose_fields [simp]:
  "dialogStates (originalClose d s) = dialogStates s"
  "activeDialogs (originalClose d s) = activeDialogs s"
  "methods_patched (originalClose d s) = methods_patched s"
  "polyfilled (originalClose d s) = polyfilled s"
  "\<not> is_open (elements (originalClose d s) d)"
  "closedby_attr (elements (originalClose d s) d') = closedby_attr (elements s d')"
  "bounding_rect (elements (originalClose d s) d') = bounding_rect (elements s d')"
  by (simp_all add: originalClose_def)

lemma originalClose_other [simp]:
  "d' \<noteq> d \<Longrightarrow> elements (originalClose d s) d' = elements s d'"
  by (simp add: originalClose_def)

lemma detachDialog_states: "dialogStates (detachDialog d s) = (dialogStates s)(d := None)"
  by (cases "dialogStates s d") (auto simp: detachDialog_def Let_def)

lemma detachDialog_stack_inv:
  "tracking_inv s \<Longrightarrow> activeDialogs (detachDialog d s) = set_delete d (activeDialogs s)"
proof (cases "dialogStates s d = None")
  case True
  assume "tracking_inv s"
  with True have "d \<notin> set (activeDialogs s)"
    by (auto simp: tracking_inv_def)
  with True show ?thesis
    by (simp add: detachDialog_noop set_delete_def)
next
  case False
  then show ?thesis by (simp add: detachDialog_stack)
qed

lemma attachDialog_states_other:
  "d' \<noteq> d \<Longrightarrow> dialogStates (attachDialog d s) d' = dialogStates s d'"
  by (simp add: attachDialog_def Let_def)

lemma dialog_close_fields [simp]:
  "methods_patched (dialog_close d s) = methods_patched s"
  "polyfilled (dialog_close d s) = polyfilled s"
  "\<not> is_open (elements (dialog_close d s) d)"
  "closedby_attr (elements (dialog_close d s) d') = closedby_attr (elements s d')"
  "bounding_rect (elements (dialog_close d s) d') = bounding_rect (elements s d')"
  by (simp_all add: dialog_close_def closePatched_def)

lemma dialog_close_other [simp]:
  "d' \<noteq> d \<Longrightarrow> elements (dialog_close d s) d' = elements s d'"
  by (simp add: dialog_close_def closePatched_def)

lemma dialog_close_patched:
  "methods_patched s \<Longrightarrow> dialogStates (dialog_close d s) = (dialogStates s)(d := None)"
  "methods_patched s \<Longrightarrow> tracking_inv s \<Longrightarrow>
     activeDialogs (dialog_close d s) = set_delete d (activeDialogs s)"
  by (simp_all add: dialog_close_def closePatched_def detachDialog_states detachDialog_stack_inv)

lemma getClosedByValue_dialog_close [simp]:
  "getClosedByValue (dialog_close d s) d' = getClosedByValue s d'"
  by (simp add: getClosedByValue_def)

text \<open>
  Every dialog resolves to one of the three policies, so the walk never goes past the
  first dialog it examines.
\<close>

lemma escape_walk_head:
  "escape_walk (d # ds) s =
     (if getClosedByValue s d = ''none'' then (True, False, s)
      else (False, True, dialog_close d s))"
  using getClosedByValue_range [of s d] by (auto simp: Let_def)

lemma escape_handler_last:
  assumes "key ev = ''Escape''" and "activeDialogs s = xs @ [d]"
  shows "documentEscapeHandler ev s =
           (ev\<lparr>key_defaultPrevented := True\<rparr>,
            if getClosedByValue s d = ''none'' then s else dialog_close d s)"
  using assms by (simp add: documentEscapeHandler_def escape_walk_head del: escape_walk.simps)

section \<open>Writing the attribute\<close>

lemma getClosedByValue_setAttribute:
  "getClosedByValue (setAttribute d v s) d =
     (if v = ''closerequest'' \<or> v = ''none'' then v else ''any'')"
  by (simp add: getClosedByValue_def setAttribute_def)

lemma setAttribute_fields [simp]:
  "closedby_attr (elements (setAttribute d v s) d) = Some v"
  "is_open (elements (setAttribute d v s) d') = is_open (elements s d')"
  "dialogStates (setAttribute d v s) = dialogStates s"
  "activeDialogs (setAttribute d v s) = activeDialogs s"
  "console (setAttribute d v s) = console s"
  by (simp_all add: setAttribute_def)

lemma console_warn_fields [simp]:
  "elements (console_warn m s) = elements s"
  "dialogStates (console_warn m s) = dialogStates s"
  "activeDialogs (console_warn m s) = activeDialogs s"
  "console (console_warn m s) = console s @ [m]"
  by (simp_all add: console_warn_def)

lemma attachDialog_tracked_ex: "\<exists>y. dialogStates (attachDialog d s) d = Some y"
  by (simp add: attachDialog_def Let_def)



lemma fold_attach_index [simp]:
  "methods_patched (fold attach_if_open ds s) = methods_patched s"
  "HTMLDialogElement (fold attach_if_open ds s) = HTMLDialogElement s"
  "polyfilled (fold attach_if_open ds s) = polyfilled s"
  "console (fold attach_if_open ds s) = console s"
  by (induction ds arbitrary: s) (simp_all add: attach_if_open_def)

section \<open>Facts about the concrete pages\<close>

lemmas page_eval_defs =
  run_def blank_page_def blank_element_def open_ok_def apply_polyfill_def isSupported_def
  setupObservers_def observeRoot_def or_unchanged_def showModalPatched_def setAttribute_def
  attachDialog_def set_add_def getClosedByValue_def Let_def

lemma three_open_facts:
  "activeDialogs three_open = [10, 20, 30]"
  "getClosedByValue three_open 10 = ''any''"
  "getClosedByValue three_open 20 = ''any''"
  "getClosedByValue three_open 30 = ''any''"
  "methods_patched three_open"
  "is_open (elements three_open 10)"
  "is_open (elements three_open 20)"
  "is_open (elements three_open 30)"
  "dialogStates three_open 10 \<noteq> None"
  "dialogStates three_open 30 \<noteq> None"
  by (simp_all add: three_open_def page_eval_defs)


lemma blocked_page_facts:
  "activeDialogs blocked_page = [10, 20]"
  "getClosedByValue blocked_page 10 = ''any''"
  "getClosedByValue blocked_page 20 = ''none''"
  "methods_patched blocked_page"
  "is_open (elements blocked_page 10)"
  "is_open (elements blocked_page 20)"
  by (simp_all add: blocked_page_def page_eval_defs)

lemma ready_page_facts:
  "activeDialogs ready_page = []"
  "dialogStates ready_page d = None"
  "getClosedByValue ready_page 10 = ''any''"
  "getClosedByValue ready_page 20 = ''any''"
  "getClosedByValue ready_page 30 = ''any''"
  "methods_patched ready_page"
  "closedby_attr (elements ready_page 10) = Some ''any''"
  "closedby_attr (elements ready_page 40) = None"
  "is_open (elements ready_page d) = False"
  "polyfilled ready_page"
  by (simp_all add: ready_page_def page_eval_defs)

lemma ready_page_inv: "tracking_inv ready_page"
  unfolding ready_page_def by (rule tracking_inv_run [OF blank_page_inv])

lemma three_open_rect:
  "bounding_rect (elements three_open 30)
     = \<lparr>rect_top = 0, rect_bottom = 100, rect_left = 0, rect_right = 100\<rparr>"
  by (simp add: three_open_def page_eval_defs)

lemma three_open_inv: "tracking_inv three_open"
  unfolding three_open_def by (rule tracking_inv_run [OF blank_page_inv])

section \<open>The cancel handler\<close>

lemma handleCancel_blocks:
  "cancel_defaultPrevented (handleCancel d \<lparr>cancel_defaultPrevented = False\<rparr> s)
     \<longleftrightarrow> getClosedByValue s d = ''none''"
  by (simp add: handleCancel_def)

section \<open>Policy resolution (C5)\<close>

text \<open>
  C5. Policy resolution is a total function of the \<open>closedby\<close> attribute as it is in
  the page it is asked in: \<open>"closerequest"\<close> resolves to itself, \<open>"none"\<close> resolves to
  itself, and every other state of the attribute (absent, empty, unrecognised) resolves
  to \<open>"any"\<close>. There is no error branch. The getter of the \<open>closedBy\<close> property is the
  same function.
\<close>

theorem getClosedByValue_total:
  "(closedby_attr (elements s d) = Some ''closerequest'' \<longrightarrow> getClosedByValue s d = ''closerequest'')
   \<and> (closedby_attr (elements s d) = Some ''none'' \<longrightarrow> getClosedByValue s d = ''none'')
   \<and> (closedby_attr (elements s d) \<noteq> Some ''closerequest''
        \<and> closedby_attr (elements s d) \<noteq> Some ''none'' \<longrightarrow> getClosedByValue s d = ''any'')
   \<and> closedBy_get s d = getClosedByValue s d"
  by (auto simp: getClosedByValue_def closedBy_get_def Let_def split: option.split)

theorem getClosedByValue_total_witness:
  "getClosedByValue (setAttribute 0 ''closerequest'' blank_page) 0 = ''closerequest''
   \<and> getClosedByValue (setAttribute 0 ''none'' blank_page) 0 = ''none''
   \<and> getClosedByValue (setAttribute 0 ''None'' blank_page) 0 = ''any''
   \<and> getClosedByValue (setAttribute 0 [] blank_page) 0 = ''any''
   \<and> getClosedByValue blank_page 0 = ''any''"
  using getClosedByValue_total [of "setAttribute 0 ''closerequest'' blank_page" 0]
        getClosedByValue_total [of "setAttribute 0 ''none'' blank_page" 0]
        getClosedByValue_total [of "setAttribute 0 ''None'' blank_page" 0]
        getClosedByValue_total [of "setAttribute 0 [] blank_page" 0]
        getClosedByValue_total [of blank_page 0]
  by (simp add: setAttribute_def blank_page_def blank_element_def)

section \<open>Detaching (C7)\<close>

text \<open>
  C7. Detaching is idempotent and total: on a dialog that has no listener record
  (never attached, or detached before) \<open>detachDialog\<close> returns the page as it is, so
  the record map and the Escape stack are unchanged; detaching twice is detaching once.
  The function has no error branch.
\<close>

theorem detachDialog_idempotent:
  "(dialogStates s d = None \<longrightarrow> detachDialog d s = s)
   \<and> detachDialog d (detachDialog d s) = detachDialog d s"
  by (simp add: detachDialog_noop)

theorem detachDialog_idempotent_witness:
  "detachDialog 0 blank_page = blank_page
   \<and> detachDialog 0 (detachDialog 0 (attachDialog 0 blank_page)) = detachDialog 0 (attachDialog 0 blank_page)"
  using detachDialog_idempotent [of blank_page 0]
        detachDialog_idempotent [of "attachDialog 0 blank_page" 0]
  by (simp add: blank_page_def)

section \<open>Attaching (C3)\<close>

text \<open>
  C3. Attaching is idempotent: on a dialog that already has a listener record
  \<open>attachDialog\<close> returns the page as it is, and after one or more calls on a page
  whose stack mirrors its records the dialog has a record and occurs exactly once in
  the Escape stack.
\<close>

theorem attachDialog_idempotent:
  "(dialogStates s d \<noteq> None \<longrightarrow> attachDialog d s = s)
   \<and> attachDialog d (attachDialog d s) = attachDialog d s
   \<and> (tracking_inv s \<and> 0 < n \<longrightarrow>
        (attachDialog d ^^ n) s = attachDialog d s
        \<and> dialogStates ((attachDialog d ^^ n) s) d \<noteq> None
        \<and> count_list (activeDialogs ((attachDialog d ^^ n) s)) d = 1)"
proof -
  have "count_list (activeDialogs (attachDialog d s)) d = 1" if "tracking_inv s"
  proof -
    from that have "tracking_inv (attachDialog d s)" by (rule tracking_inv_attach)
    then have "distinct (activeDialogs (attachDialog d s))"
      and "d \<in> set (activeDialogs (attachDialog d s))"
      by (simp_all add: tracking_inv_def)
    then show ?thesis by (rule distinct_count_list)
  qed
  then show ?thesis
    by (simp add: attachDialog_noop attachDialog_twice attachDialog_funpow)
qed

theorem attachDialog_idempotent_witness:
  "dialogStates (attachDialog 0 blank_page) 0 \<noteq> None
   \<and> attachDialog 0 (attachDialog 0 blank_page) = attachDialog 0 blank_page
   \<and> tracking_inv blank_page
   \<and> (attachDialog 0 ^^ 3) blank_page = attachDialog 0 blank_page
   \<and> dialogStates ((attachDialog 0 ^^ 3) blank_page) 0 \<noteq> None
   \<and> count_list (activeDialogs ((attachDialog 0 ^^ 3) blank_page)) 0 = 1"
proof -
  have h1: "dialogStates (attachDialog 0 blank_page) 0 \<noteq> None"
    by simp
  have h2: "tracking_inv blank_page \<and> 0 < (3::nat)"
    using blank_page_inv by simp
  from h1 h2 attachDialog_idempotent [of "attachDialog 0 blank_page" 0 1]
       attachDialog_idempotent [of blank_page 0 3]
  show ?thesis by blast
qed

section \<open>The tracking invariant (C6)\<close>

text \<open>
  C6. Every sequence of operations (attach and detach calls, and the lifecycle
  operations, handlers and observer callbacks that are built from them) preserves the
  invariant: no dialog occurs twice in the Escape stack, and a dialog is in the stack
  exactly when it has a listener record.
\<close>

theorem tracking_inv_preserved:
  assumes "tracking_inv s"
  shows "distinct (activeDialogs (run nat_open acts s))
         \<and> (\<forall>d. d \<in> set (activeDialogs (run nat_open acts s))
                 \<longleftrightarrow> dialogStates (run nat_open acts s) d \<noteq> None)"
  using tracking_inv_run [OF assms, of nat_open acts]
  by (auto simp: tracking_inv_def)

theorem tracking_inv_preserved_witness:
  "tracking_inv blank_page
   \<and> distinct (activeDialogs (run open_ok [Attach 0, Attach 1, Attach 0, Detach 0, Detach 2] blank_page))
   \<and> (\<forall>d. d \<in> set (activeDialogs (run open_ok [Attach 0, Attach 1, Attach 0, Detach 0, Detach 2] blank_page))
            \<longleftrightarrow> dialogStates (run open_ok [Attach 0, Attach 1, Attach 0, Detach 0, Detach 2] blank_page) d \<noteq> None)"
  using tracking_inv_preserved [OF blank_page_inv, of open_ok "[Attach 0, Attach 1, Attach 0, Detach 0, Detach 2]"]
        blank_page_inv
  by blast

section \<open>One Escape keypress (C1)\<close>

text \<open>
  C1. An Escape keypress handled while the Escape stack is not empty is decided by the
  most recently attached dialog, the first one the walk examines. When its policy is
  \<open>"none"\<close> the default action is prevented and the page is unchanged, so no dialog is
  closed. When its policy is \<open>"any"\<close> or \<open>"closerequest"\<close> the default action is
  prevented and \<open>close()\<close> is called on that dialog, which is not open afterwards. In
  both cases every other dialog element is as it was: at most one dialog is closed.
\<close>

theorem documentEscapeHandler_topmost:
  assumes "key ev = ''Escape''" and "activeDialogs s \<noteq> []"
  shows "(getClosedByValue s (last (activeDialogs s)) = ''none'' \<longrightarrow>
            documentEscapeHandler ev s = (ev\<lparr>key_defaultPrevented := True\<rparr>, s))
         \<and> (getClosedByValue s (last (activeDialogs s)) \<noteq> ''none'' \<longrightarrow>
            getClosedByValue s (last (activeDialogs s)) \<in> {''any'', ''closerequest''}
            \<and> documentEscapeHandler ev s =
                (ev\<lparr>key_defaultPrevented := True\<rparr>, dialog_close (last (activeDialogs s)) s)
            \<and> \<not> is_open (elements (snd (documentEscapeHandler ev s)) (last (activeDialogs s))))
         \<and> (\<forall>d'. d' \<noteq> last (activeDialogs s) \<longrightarrow>
                elements (snd (documentEscapeHandler ev s)) d' = elements s d')"
proof -
  from assms(2) have "activeDialogs s = butlast (activeDialogs s) @ [last (activeDialogs s)]"
    by simp
  from escape_handler_last [OF assms(1) this] getClosedByValue_range [of s "last (activeDialogs s)"]
  show ?thesis by auto
qed

theorem documentEscapeHandler_topmost_witness:
  "key escape_key = ''Escape'' \<and> activeDialogs blocked_page = [10, 20]
   \<and> getClosedByValue blocked_page 20 = ''none''
   \<and> documentEscapeHandler escape_key blocked_page
        = (escape_key\<lparr>key_defaultPrevented := True\<rparr>, blocked_page)
   \<and> activeDialogs three_open = [10, 20, 30]
   \<and> getClosedByValue three_open 30 = ''any''
   \<and> documentEscapeHandler escape_key three_open
        = (escape_key\<lparr>key_defaultPrevented := True\<rparr>, dialog_close 30 three_open)
   \<and> \<not> is_open (elements (snd (documentEscapeHandler escape_key three_open)) 30)
   \<and> is_open (elements (snd (documentEscapeHandler escape_key three_open)) 20)
   \<and> is_open (elements (snd (documentEscapeHandler escape_key three_open)) 10)"
proof -
  have k: "key escape_key = ''Escape''"
    by (simp add: escape_key_def)
  have b: "activeDialogs blocked_page \<noteq> []" and t: "activeDialogs three_open \<noteq> []"
    by (simp_all add: blocked_page_facts three_open_facts)
  from documentEscapeHandler_topmost [OF k b] documentEscapeHandler_topmost [OF k t] k
  show ?thesis
    by (simp add: blocked_page_facts three_open_facts)
qed

section \<open>Stack order (C2)\<close>

text \<open>
  C2. The Escape stack keeps attach order. When dialogs \<open>a\<close>, \<open>b\<close>, \<open>c\<close> are attached
  in that order on a page with the patched methods, all three resolving to \<open>"any"\<close>,
  they are appended to the stack in that order; one Escape keypress closes \<open>c\<close> only
  and leaves \<open>a\<close> and \<open>b\<close> tracked and untouched; the next Escape keypress closes
  \<open>b\<close> only and leaves \<open>a\<close> tracked and untouched. Both keypresses have their default
  action prevented.
\<close>

theorem escape_stack_order:
  assumes inv: "tracking_inv s" and patched: "methods_patched s"
    and dist: "distinct [a, b, c]"
    and fresh: "dialogStates s a = None" "dialogStates s b = None" "dialogStates s c = None"
    and pol: "getClosedByValue s a = ''any''" "getClosedByValue s b = ''any''"
             "getClosedByValue s c = ''any''"
    and esc: "key ev = ''Escape''"
  defines "s3 \<equiv> attachDialog c (attachDialog b (attachDialog a s))"
  defines "s4 \<equiv> snd (documentEscapeHandler ev s3)"
  defines "s5 \<equiv> snd (documentEscapeHandler ev s4)"
  shows "activeDialogs s3 = activeDialogs s @ [a, b, c]
         \<and> key_defaultPrevented (fst (documentEscapeHandler ev s3))
         \<and> activeDialogs s4 = activeDialogs s @ [a, b]
         \<and> \<not> is_open (elements s4 c) \<and> dialogStates s4 c = None
         \<and> elements s4 a = elements s3 a \<and> dialogStates s4 a \<noteq> None
         \<and> elements s4 b = elements s3 b \<and> dialogStates s4 b \<noteq> None
         \<and> key_defaultPrevented (fst (documentEscapeHandler ev s4))
         \<and> activeDialogs s5 = activeDialogs s @ [a]
         \<and> \<not> is_open (elements s5 b) \<and> dialogStates s5 b = None
         \<and> elements s5 a = elements s3 a \<and> dialogStates s5 a \<noteq> None"
proof -
  let ?xs = "activeDialogs s"
  let ?s1 = "attachDialog a s"
  let ?s2 = "attachDialog b ?s1"
  from dist have ne: "a \<noteq> b" "a \<noteq> c" "b \<noteq> c" by auto
  from inv fresh have out: "a \<notin> set ?xs" "b \<notin> set ?xs" "c \<notin> set ?xs"
    by (auto simp: tracking_inv_def)
  have st1: "activeDialogs ?s1 = ?xs @ [a]"
    using fresh(1) out(1) by (simp add: attachDialog_stack_fresh set_add_fresh)
  have fr1: "dialogStates ?s1 b = None" "dialogStates ?s1 c = None"
    using ne fresh by (simp_all add: attachDialog_states_other)
  have st2: "activeDialogs ?s2 = ?xs @ [a, b]"
    using fr1(1) out(2) ne st1 by (simp add: attachDialog_stack_fresh set_add_fresh)
  have fr2: "dialogStates ?s2 c = None"
    using ne fr1 by (simp add: attachDialog_states_other)
  have st3: "activeDialogs s3 = ?xs @ [a, b, c]"
    unfolding s3_def using fr2 out(3) ne st2
    by (simp add: attachDialog_stack_fresh set_add_fresh)
  have inv3: "tracking_inv s3"
    unfolding s3_def by (intro tracking_inv_attach inv)
  have pat3: "methods_patched s3"
    unfolding s3_def using patched by simp
  have pol3: "getClosedByValue s3 c = ''any''" "getClosedByValue s3 b = ''any''"
    unfolding s3_def using pol by simp_all
  have tr3: "dialogStates s3 a \<noteq> None" "dialogStates s3 b \<noteq> None"
    unfolding s3_def using ne by (simp_all add: attachDialog_states_other)
  have h3: "documentEscapeHandler ev s3 = (ev\<lparr>key_defaultPrevented := True\<rparr>, dialog_close c s3)"
    using escape_handler_last [OF esc, of s3 "?xs @ [a, b]" c] st3 pol3 by simp
  then have s4: "s4 = dialog_close c s3"
    by (simp add: s4_def)
  have st4: "activeDialogs s4 = ?xs @ [a, b]"
  proof -
    have "c \<notin> set (?xs @ [a, b])" using out ne by auto
    then have "set_delete c ((?xs @ [a, b]) @ [c]) = ?xs @ [a, b]"
      by (rule set_delete_last)
    with st3 show ?thesis
      by (simp add: s4 dialog_close_patched(2) [OF pat3 inv3])
  qed
  have ds4: "dialogStates s4 = (dialogStates s3)(c := None)"
    by (simp add: s4 dialog_close_patched(1) [OF pat3])
  have inv4: "tracking_inv s4"
    unfolding s4 by (rule tracking_inv_dialog_close [OF inv3])
  have pat4: "methods_patched s4"
    using pat3 by (simp add: s4)
  have el4: "elements s4 a = elements s3 a" "elements s4 b = elements s3 b"
    using ne by (simp_all add: s4)
  have pol4: "getClosedByValue s4 b = ''any''"
    using pol3 by (simp add: s4)
  have h4: "documentEscapeHandler ev s4 = (ev\<lparr>key_defaultPrevented := True\<rparr>, dialog_close b s4)"
    using escape_handler_last [OF esc, of s4 "?xs @ [a]" b] st4 pol4 by simp
  then have s5: "s5 = dialog_close b s4"
    by (simp add: s5_def)
  have st5: "activeDialogs s5 = ?xs @ [a]"
  proof -
    have "b \<notin> set (?xs @ [a])" using out ne by auto
    then have "set_delete b ((?xs @ [a]) @ [b]) = ?xs @ [a]"
      by (rule set_delete_last)
    with st4 show ?thesis
      by (simp add: s5 dialog_close_patched(2) [OF pat4 inv4])
  qed
  have ds5: "dialogStates s5 = (dialogStates s4)(b := None)"
    by (simp add: s5 dialog_close_patched(1) [OF pat4])
  have el5: "elements s5 a = elements s3 a"
    using ne el4 by (simp add: s5)
  have op4: "\<not> is_open (elements s4 c)" by (simp add: s4)
  have op5: "\<not> is_open (elements s5 b)" by (simp add: s5)
  show ?thesis
    using st3 st4 st5 h3 h4 ds4 ds5 el4 el5 op4 op5 tr3 ne
    by simp
qed

theorem escape_stack_order_witness:
  "tracking_inv ready_page \<and> methods_patched ready_page \<and> distinct [10, 20, 30 :: nat]
   \<and> dialogStates ready_page 10 = None \<and> dialogStates ready_page 20 = None
   \<and> dialogStates ready_page 30 = None
   \<and> getClosedByValue ready_page 10 = ''any'' \<and> getClosedByValue ready_page 20 = ''any''
   \<and> getClosedByValue ready_page 30 = ''any'' \<and> key escape_key = ''Escape''
   \<and> activeDialogs (attachDialog 30 (attachDialog 20 (attachDialog 10 ready_page))) = [10, 20, 30]
   \<and> activeDialogs (snd (documentEscapeHandler escape_key
        (attachDialog 30 (attachDialog 20 (attachDialog 10 ready_page))))) = [10, 20]
   \<and> activeDialogs (snd (documentEscapeHandler escape_key (snd (documentEscapeHandler escape_key
        (attachDialog 30 (attachDialog 20 (attachDialog 10 ready_page))))))) = [10]"
proof -
  have d: "distinct [10, 20, 30 :: nat]" by simp
  have k: "key escape_key = ''Escape''" by (simp add: escape_key_def)
  from escape_stack_order [OF ready_page_inv ready_page_facts(6) d ready_page_facts(2)
      ready_page_facts(2) ready_page_facts(2) ready_page_facts(3) ready_page_facts(4)
      ready_page_facts(5) k]
  show ?thesis
    using ready_page_inv k by (simp add: ready_page_facts)
qed

section \<open>Backdrop clicks (C4)\<close>

text \<open>
  What \<open>handleClick\<close> does. A click on another node, or on a dialog that resolves to
  \<open>"closerequest"\<close> or \<open>"none"\<close>, leaves the page unchanged. For a click on an open
  dialog that resolves to \<open>"any"\<close>: coordinates strictly outside the border box close
  it, coordinates strictly inside do not. The inclusive hit test \<open>clickedInside\<close> is
  false exactly when the pointer lies strictly outside the box.
\<close>

lemma handleClick_outcome:
  "(target ev \<noteq> d \<longrightarrow> handleClick d ev s = s)
   \<and> (getClosedByValue s d \<noteq> ''any'' \<longrightarrow> handleClick d ev s = s)
   \<and> (target ev = d \<and> getClosedByValue s d = ''any'' \<and> is_open (elements s d) \<longrightarrow>
        (spec_strictly_outside (bounding_rect (elements s d)) (clientX ev) (clientY ev) \<longrightarrow>
           \<not> is_open (elements (handleClick d ev s) d))
        \<and> (rect_top (bounding_rect (elements s d)) < clientY ev
             \<and> clientY ev < rect_bottom (bounding_rect (elements s d))
             \<and> rect_left (bounding_rect (elements s d)) < clientX ev
             \<and> clientX ev < rect_right (bounding_rect (elements s d)) \<longrightarrow>
           is_open (elements (handleClick d ev s) d)))"
  by (auto simp: handleClick_def Let_def spec_strictly_outside_def)

lemma handleClick_examples:
  "\<not> is_open (elements (handleClick 30 outer_click three_open) 30)
   \<and> is_open (elements (handleClick 30 inner_click three_open) 30)
   \<and> handleClick 30 descendant_click three_open = three_open
   \<and> handleClick 20 (outer_click\<lparr>target := 20\<rparr>) blocked_page = blocked_page
   \<and> handleClick 30 outer_click (setAttribute 30 ''closerequest'' three_open)
        = setAttribute 30 ''closerequest'' three_open"
  using handleClick_outcome [of outer_click 30 three_open]
        handleClick_outcome [of inner_click 30 three_open]
        handleClick_outcome [of descendant_click 30 three_open]
        handleClick_outcome [of "outer_click\<lparr>target := 20\<rparr>" 20 blocked_page]
        handleClick_outcome [of outer_click 30 "setAttribute 30 ''closerequest'' three_open"]
  by (simp add: three_open_facts three_open_rect blocked_page_facts outer_click_def
      inner_click_def descendant_click_def getClosedByValue_setAttribute
      spec_strictly_outside_def)

lemma clickedInside_spec:
  "\<not> clickedInside rect ev \<longleftrightarrow> spec_strictly_outside rect (clientX ev) (clientY ev)"
  by (auto simp: clickedInside_def spec_strictly_outside_def)

text \<open>
  C4 at a click on the dialog's own top edge. The target is the dialog, the dialog is
  open and resolves to \<open>"any"\<close>, and the point (50, 0) does not lie strictly outside
  the border box from (0, 0) to (100, 100): the inclusive hit test counts it as inside.
  \<open>handleClick\<close> tests with strict inequalities, finds the point not inside, and closes
  the dialog.
\<close>

theorem handleClick_edge_closes:
  "target edge_click = 30 \<and> getClosedByValue three_open 30 = ''any''
   \<and> is_open (elements three_open 30)
   \<and> \<not> spec_strictly_outside (bounding_rect (elements three_open 30))
          (clientX edge_click) (clientY edge_click)
   \<and> clickedInside (bounding_rect (elements three_open 30)) edge_click
   \<and> \<not> is_open (elements (handleClick 30 edge_click three_open) 30)"
  by (simp add: handleClick_def Let_def three_open_facts three_open_rect edge_click_def
      spec_strictly_outside_def clickedInside_def)

section \<open>Opening (C8)\<close>

text \<open>
  C8. The patched \<open>showModal\<close> runs the host's native \<open>showModal\<close> first. When that
  throws, the exception is passed on. When it returns and the dialog is not open, the
  page is left as the native call made it: nothing is attached and no record is
  created. When it returns and the dialog is open, \<open>attachDialog\<close> is called if the
  dialog has a \<open>closedby\<close> attribute, and nothing is attached otherwise. So a dialog
  that had no record gets one exactly when it ended up open and carries the attribute,
  and no other dialog's record changes.
\<close>

theorem showModalPatched_attaches:
  "(originalShowModal d (elements s) = Inl e \<longrightarrow>
      showModalPatched originalShowModal d s = Inl e)
   \<and> (originalShowModal d (elements s) = Inr els \<longrightarrow>
        (\<not> is_open (els d) \<longrightarrow>
           showModalPatched originalShowModal d s = Inr (s\<lparr>elements := els\<rparr>))
        \<and> (is_open (els d) \<and> closedby_attr (els d) \<noteq> None \<longrightarrow>
           showModalPatched originalShowModal d s = Inr (attachDialog d (s\<lparr>elements := els\<rparr>)))
        \<and> (is_open (els d) \<and> closedby_attr (els d) = None \<longrightarrow>
           showModalPatched originalShowModal d s = Inr (s\<lparr>elements := els\<rparr>))
        \<and> (dialogStates s d = None \<longrightarrow>
             (dialogStates (or_unchanged s (showModalPatched originalShowModal d s)) d \<noteq> None
              \<longleftrightarrow> is_open (els d) \<and> closedby_attr (els d) \<noteq> None))
        \<and> (\<forall>d'. d' \<noteq> d \<longrightarrow>
             dialogStates (or_unchanged s (showModalPatched originalShowModal d s)) d'
               = dialogStates s d'))"
  by (auto simp: showModalPatched_def or_unchanged_def Let_def attachDialog_states_other
      attachDialog_tracked_ex)

theorem showModalPatched_attaches_witness:
  "showModalPatched open_throws 10 ready_page = Inl InvalidStateError
   \<and> dialogStates (or_unchanged ready_page (showModalPatched open_silent 10 ready_page)) 10 = None
   \<and> dialogStates (or_unchanged ready_page (showModalPatched open_ok 10 ready_page)) 10 \<noteq> None
   \<and> dialogStates (or_unchanged ready_page (showModalPatched open_ok 40 ready_page)) 40 = None"
  using showModalPatched_attaches [where originalShowModal = open_throws and d = 10
          and s = ready_page and e = InvalidStateError]
        showModalPatched_attaches [where originalShowModal = open_silent and d = 10
          and s = ready_page and els = "elements ready_page"]
        showModalPatched_attaches [where originalShowModal = open_ok and d = 10
          and s = ready_page
          and els = "(elements ready_page)(10 := (elements ready_page 10)\<lparr>is_open := True\<rparr>)"]
        showModalPatched_attaches [where originalShowModal = open_ok and d = 40
          and s = ready_page
          and els = "(elements ready_page)(40 := (elements ready_page 40)\<lparr>is_open := True\<rparr>)"]
  by (simp add: open_throws_def open_silent_def open_ok_def ready_page_facts or_unchanged_def
      attachDialog_tracked_ex)

section \<open>Writing the property (C10)\<close>




section \<open>Initialisation (C9)\<close>

text \<open>
  What \<open>apply\<close> does on a host that defines \<open>HTMLDialogElement\<close>: it returns the page
  unchanged when the polyfill is already applied or the host has \<open>closedBy\<close>; it only
  logs a diagnostic, and leaves \<open>polyfilled\<close> false, when the prototype has no
  \<open>showModal\<close>; otherwise it patches the prototype and sets \<open>polyfilled\<close>, after
  which a second call returns the page unchanged.
\<close>

lemma apply_polyfill_gating:
  "(polyfilled s \<or> isSupported s \<longrightarrow> apply_polyfill s = Inr s)
   \<and> (\<not> polyfilled s \<and> HTMLDialogElement s = Some proto \<and> ''closedBy'' \<notin> proto
        \<and> ''showModal'' \<notin> proto \<longrightarrow>
        apply_polyfill s = Inr (console_warn DialogApiNotFound s)
        \<and> \<not> isPolyfilled (console_warn DialogApiNotFound s)
        \<and> methods_patched (console_warn DialogApiNotFound s) = methods_patched s
        \<and> HTMLDialogElement (console_warn DialogApiNotFound s) = HTMLDialogElement s)
   \<and> (\<not> polyfilled s \<and> HTMLDialogElement s = Some proto \<and> ''closedBy'' \<notin> proto
        \<and> ''showModal'' \<in> proto \<and> apply_polyfill s = Inr s' \<longrightarrow>
        isPolyfilled s' \<and> methods_patched s' \<and> isSupported s' \<and> apply_polyfill s' = Inr s')"
  by (auto simp: apply_polyfill_def isSupported_def isPolyfilled_def console_warn_def
      setupObservers_def observeRoot_def)

text \<open>
  C9 at a host that does not define \<open>HTMLDialogElement\<close> at all: \<open>isSupported\<close> is
  false, \<open>apply\<close> goes on to read \<open>HTMLDialogElement.prototype\<close> and throws a
  ReferenceError; no diagnostic is logged. The same happens when the module is loaded.
\<close>

theorem apply_polyfill_without_dialog_global:
  "apply_polyfill legacy_page = Inl ReferenceError
   \<and> module_load legacy_page = Inl ReferenceError"
  by (simp add: apply_polyfill_def module_load_def isSupported_def legacy_page_def blank_page_def)

end
